theory Spec2Isabelle
  imports Complex_Main "HOL-Library.Char_ord" "HOL-Library.List_Lexorder"
begin

section \<open>The todos store: data model\<close>

text \<open>
  \<^verbatim>\<open>interface Todo { id: string; title: string; completed: boolean }\<close> and
  \<^verbatim>\<open>interface TodosState { todos: Todo[]; loading: boolean; error: string | null }\<close>.
  The field \<^verbatim>\<open>id\<close> is called \<open>id_todo\<close> here, \<open>id\<close> being the identity function of HOL.
\<close>

record Todo =
  id_todo :: string
  title :: string
  completed :: bool

record TodosState =
  todos :: "Todo list"
  loading :: bool
  error :: "string option"

definition initialState :: TodosState where
  "initialState = \<lparr>todos = [], loading = False, error = None\<rparr>"

text \<open>The six actions of \<^verbatim>\<open>todos.action.ts\<close>, with their props.\<close>

datatype Action =
    addTodo string
  | toggleTodo string
  | deleteTodo string
  | loadTodos
  | loadTodosSuccess "Todo list"
  | loadTodosFailure string

section \<open>Decimal rendering of the clock\<close>

text \<open>
  \<^verbatim>\<open>Date.now().toString()\<close>: the clock reading is a number of milliseconds, a natural
  number here, rendered in decimal without leading zeros.
\<close>

definition digit :: "nat \<Rightarrow> char" where
  "digit d = ''0123456789'' ! d"

function toString :: "nat \<Rightarrow> string" where
  "toString n = (if n < 10 then [digit n] else toString (n div 10) @ [digit (n mod 10)])"
  by pat_completeness auto
termination
  by (relation "measure (\<lambda>n. n)") auto

declare toString.simps [simp del]

section \<open>The reducer\<close>

text \<open>
  \<^verbatim>\<open>todosReducer\<close> of \<^verbatim>\<open>todos.reducer.ts\<close>. The handler of \<^verbatim>\<open>addTodo\<close> reads
  \<^verbatim>\<open>Date.now()\<close>; the reading is the explicit first argument \<open>now\<close>, which the
  other handlers ignore.
\<close>

fun todosReducer :: "nat \<Rightarrow> TodosState \<Rightarrow> Action \<Rightarrow> TodosState" where
  "todosReducer now state loadTodos = state\<lparr>loading := True, error := None\<rparr>"
| "todosReducer now state (loadTodosSuccess ts) = state\<lparr>todos := ts, loading := False\<rparr>"
| "todosReducer now state (loadTodosFailure e) = state\<lparr>loading := False, error := Some e\<rparr>"
| "todosReducer now state (addTodo t) =
     (let newTodo = \<lparr>id_todo = toString now, title = t, completed = False\<rparr>
      in state\<lparr>todos := todos state @ [newTodo]\<rparr>)"
| "todosReducer now state (toggleTodo i) =
     state\<lparr>todos := map (\<lambda>todo. if id_todo todo = i
                                  then todo\<lparr>completed := \<not> completed todo\<rparr> else todo)
                          (todos state)\<rparr>"
| "todosReducer now state (deleteTodo i) =
     state\<lparr>todos := filter (\<lambda>todo. id_todo todo \<noteq> i) (todos state)\<rparr>"

text \<open>The ids of the todos of a state, in list order.\<close>

definition ids :: "TodosState \<Rightarrow> string list" where
  "ids state = map id_todo (todos state)"



text \<open>
  The commands that cannot bring a second record with an id already there: a load result
  whose payload has distinct ids, an add whose clock stamp is not yet an id of the state,
  and every other command.
\<close>

fun bringsNoDuplicate :: "nat \<Rightarrow> TodosState \<Rightarrow> Action \<Rightarrow> bool" where
  "bringsNoDuplicate now state (loadTodosSuccess ts) = distinct (map id_todo ts)"
| "bringsNoDuplicate now state (addTodo t) = (toString now \<notin> set (ids state))"
| "bringsNoDuplicate now state _ = True"

section \<open>The store, its effects and the facade\<close>

text \<open>
  \<^verbatim>\<open>TodosEffects\<close> has one effect per command family, each of the shape
  \<^verbatim>\<open>actions$.pipe(ofType(X), switchMap(args => call(args).pipe(map(...), catchError(...))))\<close>.
  \<^verbatim>\<open>switchMap\<close> keeps at most one inner subscription: a new trigger unsubscribes from the
  call in flight and subscribes to a new one. A lane records how many calls it has issued
  (the number identifies a call) and which call, if any, it is subscribed to.
\<close>

datatype Family = Load | Add | Toggle | Delete

record Lane =
  issued :: nat
  inFlight :: "nat option"

text \<open>\<^verbatim>\<open>ofType\<close>: the family an action triggers, if any.\<close>

fun ofType :: "Action \<Rightarrow> Family option" where
  "ofType loadTodos = Some Load"
| "ofType (addTodo t) = Some Add"
| "ofType (toggleTodo i) = Some Toggle"
| "ofType (deleteTodo i) = Some Delete"
| "ofType (loadTodosSuccess ts) = None"
| "ofType (loadTodosFailure e) = None"

definition switchMap :: "Lane \<Rightarrow> Lane" where
  "switchMap lane = \<lparr>issued = Suc (issued lane), inFlight = Some (issued lane)\<rparr>"



text \<open>
  The store with its effects: the current state, the actions dispatched so far, the four
  lanes, and the follow-up commands the effects have dispatched, each with its family and
  the call it answers. The two lists are traces: nothing reads them but the properties.
\<close>

record Store =
  current :: TodosState
  dispatched :: "Action list"
  lanes :: "Family \<Rightarrow> Lane"
  followUps :: "(Family \<times> nat \<times> Action) list"

definition initialStore :: Store where
  "initialStore = \<lparr>current = initialState, dispatched = [],
     lanes = (\<lambda>family. \<lparr>issued = 0, inFlight = None\<rparr>), followUps = []\<rparr>"

text \<open>
  \<^verbatim>\<open>store.dispatch(action)\<close>: the reducer runs (at the clock reading \<open>now\<close>), then the
  effect of the action's family, if it has one, switches to a new call.
\<close>

definition dispatch :: "nat \<Rightarrow> Action \<Rightarrow> Store \<Rightarrow> Store" where
  "dispatch now a s =
     (let s' = s\<lparr>current := todosReducer now (current s) a, dispatched := dispatched s @ [a]\<rparr>
      in case ofType a of
           None \<Rightarrow> s'
         | Some family \<Rightarrow> s'\<lparr>lanes := (lanes s')(family := switchMap (lanes s' family))\<rparr>)"





text \<open>\<^verbatim>\<open>TodosFacade\<close>: each intention method builds its action and dispatches it.\<close>

definition facade_loadTodos :: "nat \<Rightarrow> Store \<Rightarrow> Store" where
  "facade_loadTodos now s = dispatch now loadTodos s"

definition facade_addTodo :: "nat \<Rightarrow> string \<Rightarrow> Store \<Rightarrow> Store" where
  "facade_addTodo now t s = dispatch now (addTodo t) s"

definition facade_toggleTodo :: "nat \<Rightarrow> string \<Rightarrow> Store \<Rightarrow> Store" where
  "facade_toggleTodo now i s = dispatch now (toggleTodo i) s"

definition facade_deleteTodo :: "nat \<Rightarrow> string \<Rightarrow> Store \<Rightarrow> Store" where
  "facade_deleteTodo now i s = dispatch now (deleteTodo i) s"

section \<open>Strings\<close>

text \<open>
  A \<open>string\<close> is a list of 8-bit characters, read as the code units U+0000 to U+00FF.
  \<^verbatim>\<open>String.prototype.trim\<close> strips white space and line terminators from both ends; in
  this range they are U+0009 to U+000D, U+0020 and U+00A0.
\<close>

definition isWhiteSpace :: "char \<Rightarrow> bool" where
  "isWhiteSpace c = ((of_char c :: nat) \<in> {9, 10, 11, 12, 13, 32, 160})"

definition trim :: "string \<Rightarrow> string" where
  "trim s = rev (dropWhile isWhiteSpace (rev (dropWhile isWhiteSpace s)))"

text \<open>
  \<^verbatim>\<open>toLowerCase\<close> in the same range: the letters A to Z and U+00C0 to U+00DE (but the
  multiplication sign U+00D7) move up by 32.
\<close>

definition toLowerChar :: "char \<Rightarrow> char" where
  "toLowerChar c =
     (let n = (of_char c :: nat)
      in if (65 \<le> n \<and> n \<le> 90) \<or> (192 \<le> n \<and> n \<le> 222 \<and> n \<noteq> 215)
         then char_of (n + 32) else c)"

definition toLowerCase :: "string \<Rightarrow> string" where
  "toLowerCase s = map toLowerChar s"

fun startsWith :: "string \<Rightarrow> string \<Rightarrow> bool" where
  "startsWith s [] = True"
| "startsWith [] (c # cs) = False"
| "startsWith (d # ds) (c # cs) = (d = c \<and> startsWith ds cs)"

text \<open>\<^verbatim>\<open>s.includes(t)\<close>: \<open>t\<close> occurs in \<open>s\<close> as a contiguous run.\<close>

fun includesStr :: "string \<Rightarrow> string \<Rightarrow> bool" where
  "includesStr [] t = (t = [])"
| "includesStr (c # cs) t = (startsWith (c # cs) t \<or> includesStr cs t)"

section \<open>The todos component\<close>

text \<open>
  \<^verbatim>\<open>Todos\<close> of \<^verbatim>\<open>todos.ts\<close>: the text of the input field and the facade, which is the
  store behind it.
\<close>

record Todos =
  newTitle :: string
  facade :: Store

text \<open>The constructor starts with an empty field and asks the facade to load.\<close>

definition Todos_new :: "nat \<Rightarrow> Store \<Rightarrow> Todos" where
  "Todos_new now s = \<lparr>newTitle = [], facade = facade_loadTodos now s\<rparr>"

text \<open>
  \<^verbatim>\<open>add()\<close>: an empty string is falsy, so a title that trims to nothing returns early;
  otherwise the trimmed title goes to the facade and the field is cleared.
\<close>

definition Todos_add :: "nat \<Rightarrow> Todos \<Rightarrow> Todos" where
  "Todos_add now c =
     (if trim (newTitle c) = [] then c
      else c\<lparr>facade := facade_addTodo now (trim (newTitle c)) (facade c), newTitle := []\<rparr>)"

definition Todos_toggle :: "nat \<Rightarrow> Todo \<Rightarrow> Todos \<Rightarrow> Todos" where
  "Todos_toggle now todo c = c\<lparr>facade := facade_toggleTodo now (id_todo todo) (facade c)\<rparr>"

definition Todos_delete :: "nat \<Rightarrow> Todo \<Rightarrow> Todos \<Rightarrow> Todos" where
  "Todos_delete now todo c = c\<lparr>facade := facade_deleteTodo now (id_todo todo) (facade c)\<rparr>"

section \<open>The user table\<close>

text \<open>
  \<^verbatim>\<open>interface User { id: number; name: string; email: string; age: number }\<close>; the numbers
  are integers. A column is a key of \<^verbatim>\<open>User\<close>, and \<open>cell\<close> is \<^verbatim>\<open>user[column]\<close>.
\<close>

record User =
  id_user :: int
  name :: string
  email :: string
  age :: int

datatype Column = Key_id | Key_name | Key_email | Key_age

datatype Direction = asc | desc

datatype Cell = Text string | Numeric int

fun cell :: "Column \<Rightarrow> User \<Rightarrow> Cell" where
  "cell Key_id u = Numeric (id_user u)"
| "cell Key_name u = Text (name u)"
| "cell Key_email u = Text (email u)"
| "cell Key_age u = Numeric (age u)"

text \<open>
  The signals of \<^verbatim>\<open>UserTableComponent\<close>, the source collection (\<^verbatim>\<open>mockUsers\<close>), and the
  state of the search pipe \<^verbatim>\<open>searchSubject.pipe(debounceTime(300), distinctUntilChanged(),
  takeUntil(destroy$))\<close>: the pending debounce timer (when it is due, and the value it holds),
  the last value \<^verbatim>\<open>distinctUntilChanged\<close> let through, and whether \<^verbatim>\<open>destroy$\<close> has fired.
  Pages and the page size are natural numbers. The signal \<^verbatim>\<open>isLoading\<close>, which only shows
  the spinner for the first second, is left out.
\<close>

record UserTable =
  mockUsers :: "User list"
  searchTerm :: string
  currentPage :: nat
  pageSize :: nat
  sortColumn :: "Column option"
  sortDirection :: Direction
  debounceTimer :: "(nat \<times> string) option"
  lastDistinct :: "string option"
  destroyed :: bool

definition theMockUsers :: "User list" where
  "theMockUsers =
    [\<lparr>id_user = 1, name = ''Alice Johnson'', email = ''alice@example.com'', age = 28\<rparr>,
     \<lparr>id_user = 2, name = ''Bob Smith'', email = ''bob@example.com'', age = 34\<rparr>,
     \<lparr>id_user = 3, name = ''Charlie Brown'', email = ''charlie@example.com'', age = 22\<rparr>,
     \<lparr>id_user = 4, name = ''David Wilson'', email = ''david@example.com'', age = 30\<rparr>,
     \<lparr>id_user = 5, name = ''Eva Adams'', email = ''eva@example.com'', age = 27\<rparr>,
     \<lparr>id_user = 6, name = ''Frank Miller'', email = ''frank@example.com'', age = 35\<rparr>,
     \<lparr>id_user = 7, name = ''Grace Lee'', email = ''grace@example.com'', age = 29\<rparr>,
     \<lparr>id_user = 8, name = ''Henry Ford'', email = ''henry@example.com'', age = 33\<rparr>]"

definition initialTable :: UserTable where
  "initialTable = \<lparr>mockUsers = theMockUsers, searchTerm = [], currentPage = 1, pageSize = 5,
     sortColumn = Some Key_name, sortDirection = asc,
     debounceTimer = None, lastDistinct = None, destroyed = False\<rparr>"

definition filteredUsers :: "UserTable \<Rightarrow> User list" where
  "filteredUsers t =
     (let term = toLowerCase (searchTerm t)
      in if trim term = [] then mockUsers t
         else filter (\<lambda>user. includesStr (toLowerCase (name user)) term
                             \<or> includesStr (toLowerCase (email user)) term) (mockUsers t))"

text \<open>
  \<^verbatim>\<open>Array.prototype.sort\<close> with a comparator is stable: of two elements the comparator
  does not separate, the one that was first stays first. It is modelled by insertion from
  the right, which puts an element before the first one it does not come after.
\<close>

fun insertBy :: "('a \<Rightarrow> 'a \<Rightarrow> int) \<Rightarrow> 'a \<Rightarrow> 'a list \<Rightarrow> 'a list" where
  "insertBy cmp x [] = [x]"
| "insertBy cmp x (y # ys) = (if cmp x y \<le> 0 then x # y # ys else y # insertBy cmp x ys)"

fun sortBy :: "('a \<Rightarrow> 'a \<Rightarrow> int) \<Rightarrow> 'a list \<Rightarrow> 'a list" where
  "sortBy cmp [] = []"
| "sortBy cmp (x # xs) = insertBy cmp x (sortBy cmp xs)"

text \<open>
  The comparator of \<^verbatim>\<open>sortedUsers\<close>. \<^verbatim>\<open>localeCompare\<close> is the collation of the host's
  locale; it is the parameter \<open>localeCompare\<close> of everything that sorts.
\<close>

definition compareUsers ::
  "(string \<Rightarrow> string \<Rightarrow> int) \<Rightarrow> Column \<Rightarrow> Direction \<Rightarrow> User \<Rightarrow> User \<Rightarrow> int" where
  "compareUsers localeCompare column direction a b =
     (case (cell column a, cell column b) of
        (Text aValue, Text bValue) \<Rightarrow>
          (if direction = asc then localeCompare aValue bValue else localeCompare bValue aValue)
      | (Numeric aValue, Numeric bValue) \<Rightarrow>
          (if direction = asc then aValue - bValue else bValue - aValue)
      | _ \<Rightarrow> 0)"

definition sortedUsers :: "(string \<Rightarrow> string \<Rightarrow> int) \<Rightarrow> UserTable \<Rightarrow> User list" where
  "sortedUsers localeCompare t =
     (case sortColumn t of
        None \<Rightarrow> filteredUsers t
      | Some column \<Rightarrow>
          sortBy (compareUsers localeCompare column (sortDirection t)) (filteredUsers t))"

text \<open>
  \<^verbatim>\<open>slice(startIndex, endIndex)\<close>. From page 1 on, \<open>0 \<le> startIndex \<le> endIndex\<close> and
  the slice is a drop of a take. At page 0 the start index is negative and the end index
  is 0, which slices nothing.
\<close>

definition paginatedUsers :: "(string \<Rightarrow> string \<Rightarrow> int) \<Rightarrow> UserTable \<Rightarrow> User list" where
  "paginatedUsers localeCompare t =
     (if currentPage t = 0 then []
      else let startIndex = (currentPage t - 1) * pageSize t;
               endIndex = startIndex + pageSize t
           in drop startIndex (take endIndex (sortedUsers localeCompare t)))"

text \<open>
  \<^verbatim>\<open>Math.ceil(length / pageSize)\<close>. The quotient of two natural numbers of this size is
  exact enough in floating point for the ceiling to be that of the rational quotient. A
  page size of 0 divides by zero: \<^verbatim>\<open>Infinity\<close>, or \<^verbatim>\<open>NaN\<close> for \<^verbatim>\<open>0 / 0\<close>.
\<close>

datatype PageCount = Pages nat | Infinity | NaN

definition totalPages :: "(string \<Rightarrow> string \<Rightarrow> int) \<Rightarrow> UserTable \<Rightarrow> PageCount" where
  "totalPages localeCompare t =
     (let n = length (sortedUsers localeCompare t)
      in if pageSize t = 0 then (if n = 0 then NaN else Infinity)
         else Pages (nat \<lceil>real n / real (pageSize t)\<rceil>))"

text \<open>\<^verbatim>\<open>page <= totalPages\<close> and \<^verbatim>\<open>page < totalPages\<close>; every comparison with \<^verbatim>\<open>NaN\<close> is false.\<close>

fun atMost_pages :: "nat \<Rightarrow> PageCount \<Rightarrow> bool" where
  "atMost_pages page (Pages k) = (page \<le> k)"
| "atMost_pages page Infinity = True"
| "atMost_pages page NaN = False"

fun below_pages :: "nat \<Rightarrow> PageCount \<Rightarrow> bool" where
  "below_pages page (Pages k) = (page < k)"
| "below_pages page Infinity = True"
| "below_pages page NaN = False"

definition hasPreviousPage :: "UserTable \<Rightarrow> bool" where
  "hasPreviousPage t = (currentPage t > 1)"

definition hasNextPage :: "(string \<Rightarrow> string \<Rightarrow> int) \<Rightarrow> UserTable \<Rightarrow> bool" where
  "hasNextPage localeCompare t = below_pages (currentPage t) (totalPages localeCompare t)"

definition goToPage :: "(string \<Rightarrow> string \<Rightarrow> int) \<Rightarrow> nat \<Rightarrow> UserTable \<Rightarrow> UserTable" where
  "goToPage localeCompare page t =
     (if page \<ge> 1 \<and> atMost_pages page (totalPages localeCompare t)
      then t\<lparr>currentPage := page\<rparr> else t)"

definition nextPage :: "(string \<Rightarrow> string \<Rightarrow> int) \<Rightarrow> UserTable \<Rightarrow> UserTable" where
  "nextPage localeCompare t =
     (if hasNextPage localeCompare t then t\<lparr>currentPage := currentPage t + 1\<rparr> else t)"

definition previousPage :: "UserTable \<Rightarrow> UserTable" where
  "previousPage t = (if hasPreviousPage t then t\<lparr>currentPage := currentPage t - 1\<rparr> else t)"

text \<open>
  \<^verbatim>\<open>toggleSort\<close>: of the column definitions only \<^verbatim>\<open>name\<close> and \<^verbatim>\<open>age\<close> are sortable
  (\<^verbatim>\<open>email\<close> is not, and \<^verbatim>\<open>id\<close> has no definition).
\<close>

fun sortable :: "Column \<Rightarrow> bool" where
  "sortable Key_name = True"
| "sortable Key_age = True"
| "sortable Key_email = False"
| "sortable Key_id = False"

definition toggleSort :: "Column \<Rightarrow> UserTable \<Rightarrow> UserTable" where
  "toggleSort column t =
     (if \<not> sortable column then t
      else if sortColumn t = Some column
      then t\<lparr>sortDirection := (if sortDirection t = asc then desc else asc)\<rparr>
      else t\<lparr>sortColumn := Some column, sortDirection := asc\<rparr>)"

subsection \<open>The search pipe\<close>

text \<open>
  The subscriber at the end of the pipe, behind \<^verbatim>\<open>distinctUntilChanged()\<close>, which compares
  a value with the last one it let through by \<^verbatim>\<open>===\<close> and drops it when they are the same
  string.
\<close>

definition commit :: "string \<Rightarrow> UserTable \<Rightarrow> UserTable" where
  "commit term t =
     (if lastDistinct t = Some term then t
      else t\<lparr>lastDistinct := Some term, searchTerm := term, currentPage := 1\<rparr>)"

text \<open>
  Time passes up to \<open>now\<close>: a debounce timer that is due fires and hands its value down the
  pipe, unless the component is destroyed.
\<close>

definition elapse :: "nat \<Rightarrow> UserTable \<Rightarrow> UserTable" where
  "elapse now t =
     (case debounceTimer t of
        None \<Rightarrow> t
      | Some (due, term) \<Rightarrow>
          if due \<le> now
          then (if destroyed t then t\<lparr>debounceTimer := None\<rparr>
                else commit term (t\<lparr>debounceTimer := None\<rparr>))
          else t)"

text \<open>
  \<^verbatim>\<open>onSearchInput\<close> at time \<open>now\<close>: \<^verbatim>\<open>searchSubject.next(input.value)\<close>;
  \<^verbatim>\<open>debounceTime(300)\<close> drops the pending value and waits 300 from now with the new one.
\<close>

definition onSearchInput :: "nat \<Rightarrow> string \<Rightarrow> UserTable \<Rightarrow> UserTable" where
  "onSearchInput now v t =
     (let t' = elapse now t
      in if destroyed t' then t' else t'\<lparr>debounceTimer := Some (now + 300, v)\<rparr>)"

definition ngOnDestroy :: "UserTable \<Rightarrow> UserTable" where
  "ngOnDestroy t = t\<lparr>destroyed := True, debounceTimer := None\<rparr>"

text \<open>
  A comparator to run the sort with: code unit order, the strings in lexicographic order.
\<close>

definition ordinalCompare :: "string \<Rightarrow> string \<Rightarrow> int" where
  "ordinalCompare x y = (if x < y then - 1 else if y < x then 1 else 0)"







section \<open>Properties of the reducer\<close>

text \<open>
  C7. For every state (and every clock reading), reducing \<^verbatim>\<open>loadTodos\<close> yields a state with
  \<open>loading = True\<close> and \<open>error = None\<close>, whatever the two fields were before, and
  the same \<open>todos\<close>.
\<close>

theorem loadTodos_sets_loading_clears_error:
  "loading (todosReducer now state loadTodos) = True
   \<and> error (todosReducer now state loadTodos) = None
   \<and> todos (todosReducer now state loadTodos) = todos state"
  by simp

lemma toggle_twice_map:
  "map ((\<lambda>todo. if id_todo todo = i then todo\<lparr>completed := \<not> completed todo\<rparr> else todo)
        \<circ> (\<lambda>todo. if id_todo todo = i then todo\<lparr>completed := \<not> completed todo\<rparr> else todo)) ts
   = (ts :: Todo list)"
  by (induction ts) auto

text \<open>
  C8. Toggle is an involution: for every state and every id, reducing \<^verbatim>\<open>toggleTodo\<close> with
  that id twice in a row gives back the original state, so the whole list of todos and every
  \<open>completed\<close> field in it.
\<close>

theorem toggleTodo_involution:
  "todosReducer now' (todosReducer now state (toggleTodo i)) (toggleTodo i) = state"
  by (simp add: toggle_twice_map)

text \<open>
  C10. Reducing \<^verbatim>\<open>loadTodosSuccess\<close> changes the fields \<open>todos\<close> and \<open>loading\<close> only:
  the result is the old state with these two fields replaced, and \<open>error\<close> is as it was.
\<close>

theorem loadTodosSuccess_frame:
  "todosReducer now state (loadTodosSuccess ts) = state\<lparr>todos := ts, loading := False\<rparr>
   \<and> error (todosReducer now state (loadTodosSuccess ts)) = error state
   \<and> todos (todosReducer now state (loadTodosSuccess ts)) = ts
   \<and> loading (todosReducer now state (loadTodosSuccess ts)) = False"
  by simp


subsection \<open>The clock stamp\<close>









subsection \<open>Distinct ids\<close>

lemma ids_toggleTodo: "ids (todosReducer now state (toggleTodo i)) = ids state"
  by (simp add: ids_def comp_def if_distrib cong: if_cong)

lemma ids_deleteTodo:
  "distinct (ids state) \<Longrightarrow> distinct (ids (todosReducer now state (deleteTodo i)))"
  by (simp add: ids_def distinct_map_filter)

text \<open>
  C2, as the claim states it, fails at two commands: an add whose clock stamp is already the
  id of a record, and a load result whose payload holds an id twice.
\<close>

theorem distinct_ids_counterexample:
  "distinct (ids \<lparr>todos = [\<lparr>id_todo = ''5'', title = ''a'', completed = False\<rparr>],
                  loading = False, error = None\<rparr>)
   \<and> \<not> distinct (ids (todosReducer 5
        \<lparr>todos = [\<lparr>id_todo = ''5'', title = ''a'', completed = False\<rparr>],
         loading = False, error = None\<rparr> (addTodo ''b'')))
   \<and> \<not> distinct (ids (todosReducer 0
        \<lparr>todos = [\<lparr>id_todo = ''5'', title = ''a'', completed = False\<rparr>],
         loading = False, error = None\<rparr>
        (loadTodosSuccess [\<lparr>id_todo = ''1'', title = ''a'', completed = False\<rparr>,
                           \<lparr>id_todo = ''1'', title = ''b'', completed = True\<rparr>])))"
  by (simp add: ids_def toString.simps digit_def)

text \<open>
  C2, amended. From a state whose ids are pairwise distinct, every command that brings no
  duplicate (see \<open>bringsNoDuplicate\<close>) leads to a state whose ids are pairwise distinct:
  so do \<^verbatim>\<open>loadTodos\<close>, \<^verbatim>\<open>loadTodosFailure\<close>, \<^verbatim>\<open>toggleTodo\<close> and \<^verbatim>\<open>deleteTodo\<close> always,
  \<^verbatim>\<open>loadTodosSuccess\<close> when its payload has distinct ids, and \<^verbatim>\<open>addTodo\<close> when the
  clock stamp is not yet the id of a record.
\<close>

theorem todosReducer_keeps_ids_distinct:
  assumes "distinct (ids state)" and "bringsNoDuplicate now state a"
  shows "distinct (ids (todosReducer now state a))"
proof (cases a)
  case (addTodo t)
  with assms show ?thesis by (simp add: ids_def)
next
  case (toggleTodo i)
  with assms show ?thesis by (simp only: ids_toggleTodo)
next
  case (deleteTodo i)
  with assms show ?thesis by (simp only: ids_deleteTodo)
next
  case loadTodos
  with assms show ?thesis by (simp add: ids_def)
next
  case (loadTodosSuccess ts)
  with assms show ?thesis by (simp add: ids_def)
next
  case (loadTodosFailure e)
  with assms show ?thesis by (simp add: ids_def)
qed

theorem todosReducer_keeps_ids_distinct_witness:
  "distinct (ids (todosReducer 6
      \<lparr>todos = [\<lparr>id_todo = ''5'', title = ''a'', completed = False\<rparr>],
       loading = False, error = None\<rparr> (addTodo ''b'')))"
proof -
  have d: "distinct (ids \<lparr>todos = [\<lparr>id_todo = ''5'', title = ''a'', completed = False\<rparr>],
       loading = False, error = None\<rparr>)"
    by (simp add: ids_def)
  have b: "bringsNoDuplicate 6
      \<lparr>todos = [\<lparr>id_todo = ''5'', title = ''a'', completed = False\<rparr>],
       loading = False, error = None\<rparr> (addTodo ''b'')"
    by (simp add: ids_def toString.simps digit_def)
  from todosReducer_keeps_ids_distinct [OF d b] show ?thesis .
qed

section \<open>The facade and the todos component\<close>

lemma dropWhile_all: "(\<forall>x \<in> set xs. P x) \<Longrightarrow> dropWhile P xs = []"
  by (induction xs) simp_all

lemma trim_blank: "(\<forall>ch \<in> set s. isWhiteSpace ch) \<Longrightarrow> trim s = []"
  by (simp add: trim_def dropWhile_all)

text \<open>
  C3, as the claim states it, fails: the facade's \<^verbatim>\<open>addTodo\<close> has no validation. With a
  title of two spaces it dispatches the command, and the reducer appends a record.
\<close>

theorem facade_addTodo_blank_counterexample:
  "trim ''  '' = []
   \<and> dispatched (facade_addTodo 0 ''  '' initialStore) = [addTodo ''  '']
   \<and> todos (current (facade_addTodo 0 ''  '' initialStore))
       = [\<lparr>id_todo = ''0'', title = ''  '', completed = False\<rparr>]
   \<and> todos (current initialStore) = []"
  by code_simp

text \<open>
  C3, amended. The validation is in the component: for every title that is empty or white
  space only, \<^verbatim>\<open>Todos.add\<close> is a no-op, so the facade is not called, no command is
  dispatched and the store is as it was. The facade's \<^verbatim>\<open>addTodo\<close> itself dispatches
  \<^verbatim>\<open>addTodo\<close> with the title it is given, whatever the title, and the reducer runs on it.
\<close>

theorem Todos_add_blank_noop:
  assumes "\<forall>ch \<in> set (newTitle c). isWhiteSpace ch"
  shows "Todos_add now c = c
    \<and> dispatched (facade_addTodo now' t s) = dispatched s @ [addTodo t]
    \<and> current (facade_addTodo now' t s) = todosReducer now' (current s) (addTodo t)"
proof -
  from assms have "trim (newTitle c) = []" by (rule trim_blank)
  then have "Todos_add now c = c" by (simp add: Todos_add_def)
  moreover have "dispatched (facade_addTodo now' t s) = dispatched s @ [addTodo t]"
    by (simp add: facade_addTodo_def dispatch_def)
  moreover have "current (facade_addTodo now' t s) = todosReducer now' (current s) (addTodo t)"
    by (simp add: facade_addTodo_def dispatch_def)
  ultimately show ?thesis by simp
qed

theorem Todos_add_blank_noop_witness:
  "Todos_add 0 \<lparr>newTitle = ''  '', facade = initialStore\<rparr> = \<lparr>newTitle = ''  '', facade = initialStore\<rparr>
   \<and> dispatched (facade_addTodo 0 ''a'' initialStore) = [addTodo ''a'']"
proof -
  have h: "\<forall>ch \<in> set (newTitle \<lparr>newTitle = ''  '', facade = initialStore\<rparr>). isWhiteSpace ch"
    by (simp add: isWhiteSpace_def)
  from Todos_add_blank_noop [OF h, of 0 0 "''a''" initialStore]
  show ?thesis by (simp add: initialStore_def)
qed

section \<open>The user table: pages\<close>

lemma length_insertBy: "length (insertBy cmp x ys) = Suc (length ys)"
  by (induction ys) simp_all

lemma length_sortBy: "length (sortBy cmp xs) = length xs"
  by (induction xs) (simp_all add: length_insertBy)

lemma length_sortedUsers: "length (sortedUsers lc t) = length (filteredUsers t)"
  by (simp add: sortedUsers_def length_sortBy split: option.split)

text \<open>
  C4, as the claim states it, fails: a query that matches no user leaves nothing to sort,
  and the page count is 0, not 1.
\<close>

theorem totalPages_counterexample:
  "pageSize (initialTable\<lparr>searchTerm := ''zzz''\<rparr>) = 5
   \<and> sortedUsers ordinalCompare (initialTable\<lparr>searchTerm := ''zzz''\<rparr>) = []
   \<and> totalPages ordinalCompare (initialTable\<lparr>searchTerm := ''zzz''\<rparr>) = Pages 0
   \<and> totalPages ordinalCompare (initialTable\<lparr>searchTerm := ''zzz''\<rparr>)
       \<noteq> Pages (max 1 (nat \<lceil>real (length (sortedUsers ordinalCompare
             (initialTable\<lparr>searchTerm := ''zzz''\<rparr>))) / real 5\<rceil>))"
  by code_simp

text \<open>
  C4, amended. For every source collection, query, sort settings and page size above 0,
  \<^verbatim>\<open>totalPages\<close> is the ceiling of \<open>n / pageSize\<close>, where \<open>n\<close> is the number of records
  after filtering (sorting keeps the number). It is 0 exactly when no record passes the
  filter, and it is \<open>max 1\<close> of the ceiling whenever a record does.
\<close>

theorem totalPages_ceiling:
  assumes "0 < pageSize t"
  shows "totalPages lc t = Pages (nat \<lceil>real (length (filteredUsers t)) / real (pageSize t)\<rceil>)
    \<and> length (sortedUsers lc t) = length (filteredUsers t)
    \<and> (totalPages lc t = Pages 0 \<longleftrightarrow> filteredUsers t = [])
    \<and> (filteredUsers t \<noteq> [] \<longrightarrow>
         totalPages lc t = Pages (max 1 (nat \<lceil>real (length (filteredUsers t)) / real (pageSize t)\<rceil>)))"
proof -
  define n where "n = length (filteredUsers t)"
  define c where "c = nat \<lceil>real n / real (pageSize t)\<rceil>"
  from assms have tp: "totalPages lc t = Pages c"
    by (simp add: totalPages_def length_sortedUsers c_def n_def)
  have zero: "c = 0 \<longleftrightarrow> n = 0"
  proof
    assume "c = 0"
    then have "real n / real (pageSize t) \<le> 0" by (simp add: c_def ceiling_le_zero)
    with assms show "n = 0" by (simp add: divide_le_0_iff)
  qed (simp add: c_def)
  have empty: "n = 0 \<longleftrightarrow> filteredUsers t = []" by (simp add: n_def)
  from zero have pos: "n \<noteq> 0 \<Longrightarrow> max 1 c = c" by (cases c) simp_all
  from tp zero pos empty length_sortedUsers [of lc t] have
    "totalPages lc t = Pages c
     \<and> length (sortedUsers lc t) = length (filteredUsers t)
     \<and> (totalPages lc t = Pages 0 \<longleftrightarrow> filteredUsers t = [])
     \<and> (filteredUsers t \<noteq> [] \<longrightarrow> totalPages lc t = Pages (max 1 c))"
    by simp
  then show ?thesis unfolding c_def n_def .
qed

theorem totalPages_ceiling_witness:
  "totalPages ordinalCompare initialTable = Pages 2
   \<and> totalPages ordinalCompare (initialTable\<lparr>searchTerm := ''zzz''\<rparr>) = Pages 0"
proof -
  have p: "0 < pageSize initialTable" "0 < pageSize (initialTable\<lparr>searchTerm := ''zzz''\<rparr>)"
    by (simp_all add: initialTable_def)
  have n: "length (filteredUsers initialTable) = 8" 
      "length (filteredUsers (initialTable\<lparr>searchTerm := ''zzz''\<rparr>)) = 0" by code_simp+
  have "\<lceil>8 / 5 :: real\<rceil> = 2" by simp
  with totalPages_ceiling [OF p(1), of ordinalCompare] totalPages_ceiling [OF p(2), of ordinalCompare] n
  show ?thesis by (simp add: initialTable_def)
qed

section \<open>The user table: the search pipe\<close>

text \<open>
  C6, as the claim states it, fails: after \<open>learn\<close> has settled, \<open>LEARN\<close> is committed as
  the new query; and after \<open>a\<close> has settled and the user has gone to page 2, \<open>A\<close> is
  committed and the page is back at 1.
\<close>

theorem search_dedup_counterexample:
  "toLowerCase (trim ''LEARN'') = ''learn''
   \<and> searchTerm (elapse 300 (onSearchInput 0 ''learn'' initialTable)) = ''learn''
   \<and> searchTerm (elapse 1300 (onSearchInput 1000 ''LEARN''
        (elapse 300 (onSearchInput 0 ''learn'' initialTable)))) = ''LEARN''
   \<and> toLowerCase (trim ''A'') = ''a''
   \<and> searchTerm (goToPage ordinalCompare 2 (elapse 300 (onSearchInput 0 ''a'' initialTable))) = ''a''
   \<and> currentPage (goToPage ordinalCompare 2 (elapse 300 (onSearchInput 0 ''a'' initialTable))) = 2
   \<and> searchTerm (elapse 1300 (onSearchInput 1000 ''A''
        (goToPage ordinalCompare 2 (elapse 300 (onSearchInput 0 ''a'' initialTable))))) = ''A''
   \<and> currentPage (elapse 1300 (onSearchInput 1000 ''A''
        (goToPage ordinalCompare 2 (elapse 300 (onSearchInput 0 ''a'' initialTable))))) = 1"
  by code_simp

text \<open>
  C6, amended. When the debounce timer fires with a value that is the very string the pipe
  let through last, nothing is committed: the query and the page are as they were. Any other
  value, also one that differs from the last by case or by surrounding white space only, is
  committed as the query and the page is set to 1.
\<close>

theorem search_dedup_exact:
  assumes "debounceTimer t = Some (due, v)" and "due \<le> now" and "\<not> destroyed t"
  shows "(lastDistinct t = Some v \<longrightarrow> elapse now t = t\<lparr>debounceTimer := None\<rparr>)
    \<and> (lastDistinct t \<noteq> Some v \<longrightarrow>
          elapse now t = t\<lparr>debounceTimer := None, lastDistinct := Some v,
                            searchTerm := v, currentPage := 1\<rparr>)"
  using assms by (simp add: elapse_def commit_def)

theorem search_dedup_exact_witness:
  "searchTerm (elapse 1300 (onSearchInput 1000 ''a''
      (goToPage ordinalCompare 2 (elapse 300 (onSearchInput 0 ''a'' initialTable))))) = ''a''
   \<and> currentPage (elapse 1300 (onSearchInput 1000 ''a''
      (goToPage ordinalCompare 2 (elapse 300 (onSearchInput 0 ''a'' initialTable))))) = 2
   \<and> searchTerm (elapse 300 (onSearchInput 0 ''a'' initialTable)) = ''a''"
proof -
  define t1 where "t1 = goToPage ordinalCompare 2 (elapse 300 (onSearchInput 0 ''a'' initialTable))"
  have a: "debounceTimer (onSearchInput 1000 ''a'' t1) = Some (1300, ''a'')"
    and b: "\<not> destroyed (onSearchInput 1000 ''a'' t1)"
    and c: "lastDistinct (onSearchInput 1000 ''a'' t1) = Some ''a''"
    and d: "searchTerm (onSearchInput 1000 ''a'' t1) = ''a''"
    and e: "currentPage (onSearchInput 1000 ''a'' t1) = 2"
    unfolding t1_def by code_simp+
  have a0: "debounceTimer (onSearchInput 0 ''a'' initialTable) = Some (300, ''a'')"
    and b0: "\<not> destroyed (onSearchInput 0 ''a'' initialTable)"
    and c0: "lastDistinct (onSearchInput 0 ''a'' initialTable) \<noteq> Some ''a''"
    by code_simp+
  from search_dedup_exact [OF a _ b, of 1300] c d e
  have "searchTerm (elapse 1300 (onSearchInput 1000 ''a'' t1)) = ''a''
      \<and> currentPage (elapse 1300 (onSearchInput 1000 ''a'' t1)) = 2" by simp
  moreover from search_dedup_exact [OF a0 _ b0, of 300] c0
  have "searchTerm (elapse 300 (onSearchInput 0 ''a'' initialTable)) = ''a''" by simp
  ultimately show ?thesis unfolding t1_def by simp
qed

section \<open>The user table: sorting\<close>































section \<open>The load lane\<close>
























end
